theory Spec2Isabelle
  imports Main
begin

section \<open>Constraint compilation of the PostgreSQL backend (edb/pgsql/deltadbops.py)\<close>

text \<open>
  The development follows \<^verbatim>\<open>edb/pgsql/deltadbops.py\<close> and \<^verbatim>\<open>edb/pgsql/dbops/roles.py\<close>.
  Python strings are \<open>string\<close>, Python lists are lists, a raised exception is the left
  summand of a result, and the commands collected by a command group are an explicit list
  that every \<^verbatim>\<open>add_command\<close> extends at its end.
\<close>

subsection \<open>Python built-ins\<close>

text \<open>The exceptions that the modelled functions raise.\<close>

datatype py_error = ValueError string | TypeError | IndexError

text \<open>\<^verbatim>\<open>sep.join(xs)\<close>.\<close>

fun join :: "string \<Rightarrow> string list \<Rightarrow> string" where
  "join sep [] = []"
| "join sep [x] = x"
| "join sep (x # y # ys) = x @ sep @ join sep (y # ys)"

text \<open>The decimal text of a non-negative integer, as \<^verbatim>\<open>'{}'.format(i)\<close> prints it.\<close>

definition digit_char :: "nat \<Rightarrow> char" where
  "digit_char d = char_of (48 + d)"

function str_nat :: "nat \<Rightarrow> string" where
  "str_nat n = (if n < 10 then [digit_char n] else str_nat (n div 10) @ [digit_char (n mod 10)])"
  by pat_completeness auto
termination
  by (relation "measure id") auto

declare str_nat.simps [simp del]

text \<open>
  Reading a decimal text back, as \<^verbatim>\<open>int(s)\<close> does; \<open>acc\<close> is the value of the digits read
  so far. It serves to show that the decimal text determines the number.
\<close>

definition digit_value :: "char \<Rightarrow> nat" where
  "digit_value ch = of_char ch - 48"

fun read_nat :: "string \<Rightarrow> nat \<Rightarrow> nat" where
  "read_nat [] acc = acc"
| "read_nat (ch # chs) acc = read_nat chs (10 * acc + digit_value ch)"

subsection \<open>The modules that are not part of the sources\<close>

text \<open>
  Names of tables and of backend functions are pairs of a schema name and a name. The schema
  and the schema-level constraint are objects of the schema layer; this module only hands them
  on to \<^verbatim>\<open>common.get_backend_name\<close>, so each is stood for by an identifying string.
\<close>

type_synonym qname = "string \<times> string"
type_synonym schema_obj = string
type_synonym constraint_obj = string

text \<open>
  What \<^verbatim>\<open>str.format\<close> prints for the value of \<^verbatim>\<open>get_subject_name()\<close>: the fields
  \<^verbatim>\<open>{table}\<close>, \<^verbatim>\<open>{table[0]}\<close> and \<^verbatim>\<open>{table[1]}\<close>.
\<close>

record subject_format =
  fmt_table :: string
  fmt_table_0 :: string
  fmt_table_1 :: string

text \<open>
  The functions of \<^verbatim>\<open>edb.pgsql.common\<close> and the method \<^verbatim>\<open>get_subject_name\<close> of
  \<^verbatim>\<open>dbops.TableConstraint\<close> are defined outside the sources; they are parameters of
  everything below. \<^verbatim>\<open>get_backend_name\<close> is only called with \<^verbatim>\<open>catenate=False\<close>;
  its last argument is the aspect.
\<close>

record common =
  edgedb_name_to_pg_name :: "string \<Rightarrow> string"
  quote_ident :: "string \<Rightarrow> string"
  quote_literal :: "string \<Rightarrow> string"
  get_backend_name :: "schema_obj \<Rightarrow> constraint_obj \<Rightarrow> string \<Rightarrow> qname"
  get_subject_name :: "qname \<Rightarrow> subject_format"

subsection \<open>Constraint descriptors\<close>

text \<open>
  One entry of \<^verbatim>\<open>exprdata\<close> is a dictionary with the keys \<^verbatim>\<open>is_trivial\<close> and
  \<^verbatim>\<open>exprdata\<close>, the latter a dictionary with the keys \<^verbatim>\<open>plain\<close>, \<^verbatim>\<open>old\<close>,
  \<^verbatim>\<open>new\<close> and \<^verbatim>\<open>plain_chunks\<close>. The records model well-formed entries: every key
  is present.
\<close>

record exprdata_dict =
  plain :: string
  old :: string
  new :: string
  plain_chunks :: "string list"

record fragment =
  is_trivial :: bool
  exprdata :: exprdata_dict

record ConstraintCommon =
  constr_id :: string
  schema_constr_name :: string
  schema_constr_is_delegated :: bool
  constr_schema :: schema_obj
  constr_object :: constraint_obj

record SchemaConstraintDomainConstraint = ConstraintCommon +
  dc_domain_name :: qname
  dc_exprdata :: "fragment list"

record SchemaConstraintTableConstraint = ConstraintCommon +
  tc_table_name :: qname
  tc_exprdata :: "fragment list"
  tc_scope :: string
  tc_type :: string

definition raw_constraint_name :: "'a ConstraintCommon_scheme \<Rightarrow> string" where
  "raw_constraint_name c = constr_id c @ '';'' @ ''schemaconstr''"

definition constraint_name :: "common \<Rightarrow> 'a ConstraintCommon_scheme \<Rightarrow> bool \<Rightarrow> string" where
  "constraint_name cm c quote =
     (let name = raw_constraint_name c;
          name = edgedb_name_to_pg_name cm name
      in if quote then quote_ident cm name else name)"

definition delegated :: "'a ConstraintCommon_scheme \<Rightarrow> bool" where
  "delegated c = schema_constr_is_delegated c"

definition numbered_constraint_name ::
  "common \<Rightarrow> SchemaConstraintTableConstraint \<Rightarrow> nat \<Rightarrow> bool \<Rightarrow> string" where
  "numbered_constraint_name cm c i quote =
     (let raw_name = raw_constraint_name c;
          name = edgedb_name_to_pg_name cm (raw_name @ ''#'' @ str_nat i)
      in if quote then quote_ident cm name else name)"

definition get_trigger_procname :: "common \<Rightarrow> SchemaConstraintTableConstraint \<Rightarrow> qname" where
  "get_trigger_procname cm c =
     get_backend_name cm (constr_schema c) (constr_object c) ''trigproc''"

definition is_multiconstraint :: "SchemaConstraintTableConstraint \<Rightarrow> bool" where
  "is_multiconstraint c \<longleftrightarrow> tc_scope c \<noteq> ''row'' \<and> length (tc_exprdata c) > 1"

definition is_natively_inherited :: "SchemaConstraintTableConstraint \<Rightarrow> bool" where
  "is_natively_inherited c \<longleftrightarrow> tc_type c = ''check''"

subsection \<open>Rendering the constraint text\<close>

text \<open>
  \<^verbatim>\<open>SchemaConstraintTableConstraint.constraint_code\<close> returns a \<^verbatim>\<open>str\<close> in row scope and
  a \<^verbatim>\<open>list\<close> of \<^verbatim>\<open>str\<close> otherwise.
\<close>

datatype constraint_text = PyStr string | PyList "string list"

text \<open>The loop over \<^verbatim>\<open>self._exprdata\<close> that appends to \<^verbatim>\<open>constr_exprs\<close>.\<close>

fun unique_constr_exprs :: "fragment list \<Rightarrow> string list \<Rightarrow> string list" where
  "unique_constr_exprs [] constr_exprs = constr_exprs"
| "unique_constr_exprs (e # es) constr_exprs =
     (let expr =
        (if is_trivial e then
           (let expr = join '', '' (plain_chunks (exprdata e))
            in ''UNIQUE ('' @ expr @ '')'')
         else
           (let chunks = plain_chunks (exprdata e);
                expr = join '', '' (map (\<lambda>chunk. chunk @ '' WITH ='') chunks)
            in ''EXCLUDE ('' @ expr @ '')''))
      in unique_constr_exprs es (constr_exprs @ [expr]))"

definition constraint_code :: "SchemaConstraintTableConstraint \<Rightarrow> py_error + constraint_text" where
  "constraint_code c =
     (if tc_scope c = ''row'' then
        (let expr =
           (if length (tc_exprdata c) = 1 then plain (exprdata (tc_exprdata c ! 0))
            else
              (let exprs = map (\<lambda>e. plain (exprdata e)) (tc_exprdata c)
               in ''('' @ join '') AND ('' exprs @ '')''))
         in Inr (PyStr (''CHECK ('' @ expr @ '')'')))
      else if tc_type c \<noteq> ''unique'' then
        Inl (ValueError (''unexpected constraint type: '' @ tc_type c))
      else Inr (PyList (unique_constr_exprs (tc_exprdata c) [])))"

text \<open>
  \<^verbatim>\<open>SchemaConstraintDomainConstraint.constraint_code\<close>. When the number of entries is not
  one, the source evaluates \<^verbatim>\<open>self._exprdata['exprdata']\<close>: the list of entries is indexed
  with a string, which raises \<^verbatim>\<open>TypeError\<close> before any text is built.
\<close>

definition domain_constraint_code :: "SchemaConstraintDomainConstraint \<Rightarrow> py_error + string" where
  "domain_constraint_code d =
     (if length (dc_exprdata d) = 1 then
        (let expr = plain (exprdata (dc_exprdata d ! 0))
         in Inr (''CHECK ('' @ expr @ '')''))
      else Inl TypeError)"

text \<open>The loop of \<^verbatim>\<open>get_trigger_condition\<close> and the function itself.\<close>

fun trigger_condition_chunks :: "fragment list \<Rightarrow> string list \<Rightarrow> string list" where
  "trigger_condition_chunks [] chunks = chunks"
| "trigger_condition_chunks (e # es) chunks =
     (let condition = old (exprdata e) @ '' IS DISTINCT FROM '' @ new (exprdata e)
      in trigger_condition_chunks es (chunks @ [condition]))"

definition get_trigger_condition :: "SchemaConstraintTableConstraint \<Rightarrow> string" where
  "get_trigger_condition c =
     (let chunks = trigger_condition_chunks (tc_exprdata c) []
      in if length chunks = 1 then chunks ! 0
         else ''('' @ join '') OR ('' chunks @ '')'')"

text \<open>
  \<^verbatim>\<open>get_trigger_proc_text\<close>. \<open>nl\<close> is the line feed, \<open>sp n\<close> the indentation of \<open>n\<close> blanks
  and \<open>apo\<close> the apostrophe of the template.
\<close>

definition nl :: string where
  "nl = [CHR 0x0A]"

definition sp :: "nat \<Rightarrow> string" where
  "sp n = replicate n (CHR '' '')"

definition apo :: string where
  "apo = [CHR 0x27]"

definition trigger_proc_chunk ::
  "string \<Rightarrow> string \<Rightarrow> subject_format \<Rightarrow> string \<Rightarrow> string \<Rightarrow> string" where
  "trigger_proc_chunk plain_expr new_expr table constr errmsg =
     nl @ sp 16 @ ''PERFORM'' @
     nl @ sp 20 @ ''TRUE'' @
     nl @ sp 18 @ ''FROM'' @
     nl @ sp 20 @ fmt_table table @
     nl @ sp 18 @ ''WHERE'' @
     nl @ sp 20 @ plain_expr @ '' = '' @ new_expr @ '';'' @
     nl @ sp 16 @ ''IF FOUND THEN'' @
     nl @ sp 18 @ ''RAISE unique_violation'' @
     nl @ sp 22 @ ''USING'' @
     nl @ sp 26 @ ''TABLE = '' @ apo @ fmt_table_1 table @ apo @ '','' @
     nl @ sp 26 @ ''SCHEMA = '' @ apo @ fmt_table_0 table @ apo @ '','' @
     nl @ sp 26 @ ''CONSTRAINT = '' @ apo @ constr @ apo @ '','' @
     nl @ sp 26 @ ''MESSAGE = '' @ apo @ errmsg @ apo @ '','' @
     nl @ sp 26 @ ''DETAIL = '' @ apo @ ''Key ('' @ plain_expr @ '') already exists.'' @ apo @ '';'' @
     nl @ sp 16 @ ''END IF;'' @
     nl @ sp 12"

fun trigger_proc_chunks ::
  "fragment list \<Rightarrow> subject_format \<Rightarrow> string \<Rightarrow> string \<Rightarrow> string list \<Rightarrow> string list" where
  "trigger_proc_chunks [] table constr errmsg chunks = chunks"
| "trigger_proc_chunks (e # es) table constr errmsg chunks =
     (let text = trigger_proc_chunk (plain (exprdata e)) (new (exprdata e)) table constr errmsg
      in trigger_proc_chunks es table constr errmsg (chunks @ [text]))"

definition get_trigger_proc_text :: "common \<Rightarrow> SchemaConstraintTableConstraint \<Rightarrow> string" where
  "get_trigger_proc_text cm c =
     (let constr_name = constraint_name cm c True;
          raw_constr_name = constraint_name cm c False;
          errmsg = ''duplicate key value violates unique '' @ ''constraint '' @ constr_name;
          subject_table = get_subject_name cm (tc_table_name c);
          chunks = trigger_proc_chunks (tc_exprdata c) subject_table raw_constr_name errmsg []
      in ''BEGIN'' @ nl @ join (nl @ nl) chunks @ nl @ ''RETURN NEW;'' @ nl @ ''END;'')"

subsection \<open>Splitting into physical constraints\<close>

text \<open>
  The test \<^verbatim>\<open>isinstance(exprs, list) and len(exprs) > 1\<close> that every command of this
  module applies to the result of \<^verbatim>\<open>constraint_code\<close>: it selects between one physical
  constraint and several numbered ones.
\<close>

fun is_list_of_many :: "constraint_text \<Rightarrow> bool" where
  "is_list_of_many (PyStr s) = False"
| "is_list_of_many (PyList exprs) = (length exprs > 1)"

text \<open>
  What a \<^verbatim>\<open>for\<close> loop visits: the entries of a list, the characters of a string.
\<close>

fun items :: "constraint_text \<Rightarrow> string list" where
  "items (PyList exprs) = exprs"
| "items (PyStr s) = map (\<lambda>ch. [ch]) s"

text \<open>
  The loops \<^verbatim>\<open>for i, expr in enumerate(exprs)\<close> of the add and the drop command; \<open>i\<close> is
  the running index.
\<close>

fun add_constraint_chunks ::
  "common \<Rightarrow> SchemaConstraintTableConstraint \<Rightarrow> nat \<Rightarrow> string list \<Rightarrow> string list \<Rightarrow> string list" where
  "add_constraint_chunks cm c i [] chunks = chunks"
| "add_constraint_chunks cm c i (expr # exprs) chunks =
     (let name = numbered_constraint_name cm c i True;
          chunk = ''ADD CONSTRAINT '' @ name @ '' '' @ expr
      in add_constraint_chunks cm c (i + 1) exprs (chunks @ [chunk]))"

fun drop_constraint_chunks ::
  "common \<Rightarrow> SchemaConstraintTableConstraint \<Rightarrow> nat \<Rightarrow> string list \<Rightarrow> string list \<Rightarrow> string list" where
  "drop_constraint_chunks cm c i [] chunks = chunks"
| "drop_constraint_chunks cm c i (expr # exprs) chunks =
     (let name = numbered_constraint_name cm c i True;
          chunk = ''DROP CONSTRAINT '' @ name
      in drop_constraint_chunks cm c (i + 1) exprs (chunks @ [chunk]))"

text \<open>
  \<^verbatim>\<open>AlterTableAddMultiConstraint.code\<close>. In the second branch a list is replaced by its
  first element, which raises \<^verbatim>\<open>IndexError\<close> on the empty list.
\<close>

definition AlterTableAddMultiConstraint_code ::
  "common \<Rightarrow> SchemaConstraintTableConstraint \<Rightarrow> py_error + string" where
  "AlterTableAddMultiConstraint_code cm c =
     (case constraint_code c of
        Inl err \<Rightarrow> Inl err
      | Inr exprs \<Rightarrow>
          if is_list_of_many exprs then
            Inr (join '', '' (add_constraint_chunks cm c 0 (items exprs) []))
          else
            (case exprs of
               PyList [] \<Rightarrow> Inl IndexError
             | PyList (e # es) \<Rightarrow>
                 Inr (''ADD CONSTRAINT '' @ constraint_name cm c True @ '' '' @ e)
             | PyStr e \<Rightarrow>
                 Inr (''ADD CONSTRAINT '' @ constraint_name cm c True @ '' '' @ e)))"

text \<open>\<^verbatim>\<open>AlterTableDropMultiConstraint.code\<close>.\<close>

definition AlterTableDropMultiConstraint_code ::
  "common \<Rightarrow> SchemaConstraintTableConstraint \<Rightarrow> py_error + string" where
  "AlterTableDropMultiConstraint_code cm c =
     (case constraint_code c of
        Inl err \<Rightarrow> Inl err
      | Inr exprs \<Rightarrow>
          if is_list_of_many exprs then
            Inr (join '', '' (drop_constraint_chunks cm c 0 (items exprs) []))
          else Inr (''DROP CONSTRAINT '' @ constraint_name cm c True))"

subsection \<open>The commands of \<^verbatim>\<open>dbops\<close> that the lifecycle emits\<close>

text \<open>
  A trigger is bound to the name of its procedure, or to the text \<^verbatim>\<open>'null'\<close> where the
  source only needs the trigger's name. Omitted keyword arguments keep the value \<^verbatim>\<open>None\<close>.
\<close>

datatype procedure = ProcName qname | ProcStr string

record Trigger =
  trigger_name :: string
  trigger_table_name :: qname
  trigger_events :: "string list"
  trigger_procedure :: procedure
  trigger_condition :: "string option"
  trigger_is_constraint :: bool
  trigger_inherit :: bool

record Function =
  function_name :: qname
  function_text :: string
  function_volatility :: string
  function_returns :: string
  function_language :: string

text \<open>The commands that are added to an \<^verbatim>\<open>AlterTable\<close> command.\<close>

datatype alter_table_command =
    AlterTableAddMultiConstraint SchemaConstraintTableConstraint
  | AlterTableDropMultiConstraint SchemaConstraintTableConstraint

text \<open>
  The commands of a group. \<^verbatim>\<open>DisableTrigger\<close> carries \<^verbatim>\<open>self_only\<close>,
  \<^verbatim>\<open>DropFunction\<close> and \<^verbatim>\<open>RenameFunction\<close> carry the argument list, which is always
  the empty tuple here.
\<close>

datatype command =
    AlterTable qname "alter_table_command list"
  | AlterTableRenameMultiConstraint qname SchemaConstraintTableConstraint
      SchemaConstraintTableConstraint
  | CreateOrReplaceFunction Function
  | RenameFunction qname "string list" qname
  | DropFunction qname "string list"
  | CreateTrigger Trigger
  | DisableTrigger Trigger bool
  | AlterTriggerRenameTo Trigger string
  | DropTrigger Trigger

text \<open>\<^verbatim>\<open>CommandGroup.add_command\<close> and \<^verbatim>\<open>CommandGroup.add_commands\<close> on the list of commands.\<close>

definition add_command :: "command list \<Rightarrow> command \<Rightarrow> command list" where
  "add_command cmds cmd = cmds @ [cmd]"

definition add_commands :: "command list \<Rightarrow> command list \<Rightarrow> command list" where
  "add_commands cmds new_cmds = cmds @ new_cmds"

subsection \<open>The lifecycle of an inheritable constraint\<close>

text \<open>
  The methods of \<^verbatim>\<open>AlterTableInheritableConstraintBase\<close>. \<open>name\<close> is \<^verbatim>\<open>self.name\<close>, the
  table of the command, and \<open>cmds\<close> the commands that the group holds so far.
  \<^verbatim>\<open>rename_constr_trigger\<close> reads the descriptors \<^verbatim>\<open>self._constraint\<close> and
  \<^verbatim>\<open>self._new_constraint\<close> of the command, not the arguments of \<^verbatim>\<open>rename_constraint\<close>;
  they are the arguments \<open>self_constraint\<close> and \<open>self_new_constraint\<close>.
\<close>

definition create_constr_trigger ::
  "common \<Rightarrow> qname \<Rightarrow> SchemaConstraintTableConstraint \<Rightarrow> qname \<Rightarrow> command list" where
  "create_constr_trigger cm table_name constraint proc_name =
     (let cmds = [];
          cname = raw_constraint_name constraint;
          ins_trigger_name = edgedb_name_to_pg_name cm (cname @ ''_instrigger'');
          ins_trigger = \<lparr>trigger_name = ins_trigger_name, trigger_table_name = table_name,
            trigger_events = [''insert''], trigger_procedure = ProcName proc_name,
            trigger_condition = None, trigger_is_constraint = True, trigger_inherit = True\<rparr>;
          cr_ins_trigger = CreateTrigger ins_trigger;
          cmds = cmds @ [cr_ins_trigger];
          disable_ins_trigger = DisableTrigger ins_trigger True;
          cmds = cmds @ [disable_ins_trigger];
          upd_trigger_name = edgedb_name_to_pg_name cm (cname @ ''_updtrigger'');
          condition = get_trigger_condition constraint;
          upd_trigger = \<lparr>trigger_name = upd_trigger_name, trigger_table_name = table_name,
            trigger_events = [''update''], trigger_procedure = ProcName proc_name,
            trigger_condition = Some condition, trigger_is_constraint = True,
            trigger_inherit = True\<rparr>;
          cr_upd_trigger = CreateTrigger upd_trigger;
          cmds = cmds @ [cr_upd_trigger];
          disable_upd_trigger = DisableTrigger upd_trigger True;
          cmds = cmds @ [disable_upd_trigger]
      in cmds)"

definition rename_constr_trigger ::
  "common \<Rightarrow> qname \<Rightarrow> SchemaConstraintTableConstraint \<Rightarrow> SchemaConstraintTableConstraint \<Rightarrow>
     command list" where
  "rename_constr_trigger cm table_name self_constraint self_new_constraint =
     (let constraint = self_constraint;
          new_constr = self_new_constraint;
          cname = raw_constraint_name constraint;
          ncname = raw_constraint_name new_constr;
          ins_trigger_name = edgedb_name_to_pg_name cm (cname @ ''_instrigger'');
          new_ins_trg_name = edgedb_name_to_pg_name cm (ncname @ ''_instrigger'');
          ins_trigger = \<lparr>trigger_name = ins_trigger_name, trigger_table_name = table_name,
            trigger_events = [''insert''], trigger_procedure = ProcStr ''null'',
            trigger_condition = None, trigger_is_constraint = True, trigger_inherit = True\<rparr>;
          rn_ins_trigger = AlterTriggerRenameTo ins_trigger new_ins_trg_name;
          upd_trigger_name = edgedb_name_to_pg_name cm (cname @ ''_updtrigger'');
          new_upd_trg_name = edgedb_name_to_pg_name cm (ncname @ ''_updtrigger'');
          upd_trigger = \<lparr>trigger_name = upd_trigger_name, trigger_table_name = table_name,
            trigger_events = [''update''], trigger_procedure = ProcStr ''null'',
            trigger_condition = None, trigger_is_constraint = True, trigger_inherit = True\<rparr>;
          rn_upd_trigger = AlterTriggerRenameTo upd_trigger new_upd_trg_name
      in [rn_ins_trigger, rn_upd_trigger])"

definition drop_constr_trigger ::
  "common \<Rightarrow> qname \<Rightarrow> SchemaConstraintTableConstraint \<Rightarrow> command list" where
  "drop_constr_trigger cm table_name constraint =
     (let cname = raw_constraint_name constraint;
          ins_trigger_name = edgedb_name_to_pg_name cm (cname @ ''_instrigger'');
          ins_trigger = \<lparr>trigger_name = ins_trigger_name, trigger_table_name = table_name,
            trigger_events = [''insert''], trigger_procedure = ProcStr ''null'',
            trigger_condition = None, trigger_is_constraint = True, trigger_inherit = True\<rparr>;
          drop_ins_trigger = DropTrigger ins_trigger;
          upd_trigger_name = edgedb_name_to_pg_name cm (cname @ ''_updtrigger'');
          upd_trigger = \<lparr>trigger_name = upd_trigger_name, trigger_table_name = table_name,
            trigger_events = [''update''], trigger_procedure = ProcStr ''null'',
            trigger_condition = None, trigger_is_constraint = True, trigger_inherit = True\<rparr>;
          drop_upd_trigger = DropTrigger upd_trigger
      in [drop_ins_trigger, drop_upd_trigger])"

definition create_constr_trigger_function ::
  "common \<Rightarrow> SchemaConstraintTableConstraint \<Rightarrow> command list" where
  "create_constr_trigger_function cm constraint =
     (let proc_name = get_trigger_procname cm constraint;
          proc_text = get_trigger_proc_text cm constraint;
          func = \<lparr>function_name = proc_name, function_text = proc_text,
            function_volatility = ''stable'', function_returns = ''trigger'',
            function_language = ''plpgsql''\<rparr>
      in [CreateOrReplaceFunction func])"

definition drop_constr_trigger_function :: "qname \<Rightarrow> command list" where
  "drop_constr_trigger_function proc_name = [DropFunction proc_name []]"

definition create_constraint ::
  "common \<Rightarrow> qname \<Rightarrow> SchemaConstraintTableConstraint \<Rightarrow> command list \<Rightarrow> command list" where
  "create_constraint cm name constraint cmds =
     (let add_constr = AlterTableAddMultiConstraint constraint;
          my_alter = AlterTable name [add_constr];
          cmds = add_command cmds my_alter
      in if \<not> is_natively_inherited constraint then
           (let cmds = add_commands cmds (create_constr_trigger_function cm constraint);
                proc_name = get_trigger_procname cm constraint;
                cr_trigger = create_constr_trigger cm name constraint proc_name
            in add_commands cmds cr_trigger)
         else cmds)"

definition rename_constraint ::
  "common \<Rightarrow> qname \<Rightarrow> SchemaConstraintTableConstraint \<Rightarrow> SchemaConstraintTableConstraint \<Rightarrow>
     SchemaConstraintTableConstraint \<Rightarrow> SchemaConstraintTableConstraint \<Rightarrow>
     command list \<Rightarrow> command list" where
  "rename_constraint cm name self_constraint self_new_constraint old_constraint new_constraint
     cmds =
     (let rename_constr = AlterTableRenameMultiConstraint name old_constraint new_constraint;
          cmds = add_command cmds rename_constr
      in if \<not> is_natively_inherited old_constraint then
           (let old_proc_name = get_trigger_procname cm old_constraint;
                new_proc_name = get_trigger_procname cm new_constraint;
                rename_proc = RenameFunction old_proc_name [] new_proc_name;
                cmds = add_command cmds rename_proc;
                cmds = add_commands cmds (create_constr_trigger_function cm new_constraint);
                mv_trigger = rename_constr_trigger cm name self_constraint self_new_constraint
            in add_commands cmds mv_trigger)
         else cmds)"

definition drop_constraint ::
  "common \<Rightarrow> qname \<Rightarrow> SchemaConstraintTableConstraint \<Rightarrow> command list \<Rightarrow> command list" where
  "drop_constraint cm name constraint cmds =
     (let cmds =
        (if \<not> is_natively_inherited constraint then
           (let cmds = add_commands cmds (drop_constr_trigger cm name constraint);
                proc_name = get_trigger_procname cm constraint
            in add_commands cmds (drop_constr_trigger_function proc_name))
         else cmds);
          drop_constr = AlterTableDropMultiConstraint constraint;
          my_alter = AlterTable name [drop_constr]
      in add_command cmds my_alter)"

definition alter_constraint ::
  "common \<Rightarrow> qname \<Rightarrow> SchemaConstraintTableConstraint \<Rightarrow> SchemaConstraintTableConstraint \<Rightarrow>
     command list \<Rightarrow> command list" where
  "alter_constraint cm name old_constraint new_constraint cmds =
     (if delegated old_constraint \<and> \<not> delegated new_constraint then
        create_constraint cm name new_constraint cmds
      else if \<not> delegated old_constraint \<and> delegated new_constraint then
        drop_constraint cm name old_constraint cmds
      else if \<not> delegated new_constraint then
        (let cmds = drop_constraint cm name old_constraint cmds
         in create_constraint cm name new_constraint cmds)
      else cmds)"

text \<open>
  The four commands. Each \<^verbatim>\<open>generate\<close> fills the group and then hands it to the command
  framework, which renders the commands in the order of the list; the functions below return
  the list that is handed over. A command starts with the empty list.
\<close>

definition AlterTableAddInheritableConstraint_generate ::
  "common \<Rightarrow> qname \<Rightarrow> SchemaConstraintTableConstraint \<Rightarrow> command list \<Rightarrow> command list" where
  "AlterTableAddInheritableConstraint_generate cm name constraint cmds =
     (if \<not> delegated constraint then create_constraint cm name constraint cmds else cmds)"

definition AlterTableRenameInheritableConstraint_generate ::
  "common \<Rightarrow> qname \<Rightarrow> SchemaConstraintTableConstraint \<Rightarrow> SchemaConstraintTableConstraint \<Rightarrow>
     command list \<Rightarrow> command list" where
  "AlterTableRenameInheritableConstraint_generate cm name constraint new_constraint cmds =
     (if \<not> delegated constraint then
        rename_constraint cm name constraint new_constraint constraint new_constraint cmds
      else cmds)"

definition AlterTableAlterInheritableConstraint_generate ::
  "common \<Rightarrow> qname \<Rightarrow> SchemaConstraintTableConstraint \<Rightarrow> SchemaConstraintTableConstraint \<Rightarrow>
     command list \<Rightarrow> command list" where
  "AlterTableAlterInheritableConstraint_generate cm name constraint new_constraint cmds =
     alter_constraint cm name constraint new_constraint cmds"

definition AlterTableDropInheritableConstraint_generate ::
  "common \<Rightarrow> qname \<Rightarrow> SchemaConstraintTableConstraint \<Rightarrow> command list \<Rightarrow> command list" where
  "AlterTableDropInheritableConstraint_generate cm name constraint cmds =
     (if \<not> delegated constraint then drop_constraint cm name constraint cmds else cmds)"

section \<open>Role commands (edb/pgsql/dbops/roles.py)\<close>

text \<open>
  A role. \<^verbatim>\<open>password\<close> and \<^verbatim>\<open>membership\<close> default to \<^verbatim>\<open>None\<close>; the metadata is not
  read by any command below.
\<close>

record Role =
  role_name :: string
  role_allow_login :: bool
  role_password :: "string option"
  role_is_superuser :: bool
  role_membership :: "string list option"
  role_metadata :: "(string \<times> string) list option"

definition get_id :: "common \<Rightarrow> Role \<Rightarrow> string" where
  "get_id cm r = quote_ident cm (role_name r)"

text \<open>
  The truth value that an \<^verbatim>\<open>if\<close> gives to an optional string or list: \<^verbatim>\<open>None\<close> and
  the empty value are false.
\<close>

fun truthy :: "'a list option \<Rightarrow> bool" where
  "truthy None = False"
| "truthy (Some xs) = (xs \<noteq> [])"

definition RoleCommand_render :: "common \<Rightarrow> Role \<Rightarrow> string" where
  "RoleCommand_render cm r =
     (let superuser = (if role_is_superuser r then ''SUPERUSER'' else []);
          login = (if role_allow_login r then ''LOGIN'' else ''NOLOGIN'');
          password =
            (if truthy (role_password r) then
               (case role_password r of
                  Some p \<Rightarrow> ''PASSWORD '' @ quote_literal cm p
                | None \<Rightarrow> ''PASSWORD NULL'')
             else ''PASSWORD NULL'')
      in ''ROLE '' @ get_id cm r @ '' '' @ superuser @ '' '' @ login @ '' '' @ password)"

definition CreateRole_code :: "common \<Rightarrow> Role \<Rightarrow> string" where
  "CreateRole_code cm r =
     (let membership =
        (if truthy (role_membership r) then
           (case role_membership r of
              Some ms \<Rightarrow>
                (let roles = join '', '' (map (quote_ident cm) ms)
                 in ''IN ROLE '' @ roles)
            | None \<Rightarrow> [])
         else [])
      in ''CREATE '' @ RoleCommand_render cm r @ '' '' @ membership)"

definition AlterRole_code :: "common \<Rightarrow> Role \<Rightarrow> string" where
  "AlterRole_code cm r = ''ALTER '' @ RoleCommand_render cm r"

section \<open>Instances for the examples\<close>

text \<open>
  An instance of the parameters: names within the length limit of the backend pass through the
  name mangler unchanged, identifiers are quoted with double quotes and literals with
  apostrophes, and the trigger procedure of a constraint lives in the schema \<^verbatim>\<open>edgedb\<close>.
\<close>

definition plain_common :: common where
  "plain_common =
     \<lparr>edgedb_name_to_pg_name = (\<lambda>name. name),
      quote_ident = (\<lambda>name. [CHR 0x22] @ name @ [CHR 0x22]),
      quote_literal = (\<lambda>text. [CHR 0x27] @ text @ [CHR 0x27]),
      get_backend_name = (\<lambda>schema constraint aspect. (''edgedb'', constraint @ ''_'' @ aspect)),
      get_subject_name = (\<lambda>table.
        \<lparr>fmt_table = fst table @ ''.'' @ snd table, fmt_table_0 = fst table,
         fmt_table_1 = snd table\<rparr>)\<rparr>"

text \<open>
  A check constraint of row scope on the table \<^verbatim>\<open>people\<close>, and a unique constraint over a
  pair of columns and a computed expression on the table \<^verbatim>\<open>accounts\<close>.
\<close>

definition age_fragment :: fragment where
  "age_fragment =
     \<lparr>is_trivial = False,
      exprdata = \<lparr>plain = ''age >= 0'', old = ''OLD.age >= 0'', new = ''NEW.age >= 0'',
        plain_chunks = [''age >= 0'']\<rparr>\<rparr>"

definition email_fragment :: fragment where
  "email_fragment =
     \<lparr>is_trivial = False,
      exprdata = \<lparr>plain = ''lower(a)'', old = ''lower(OLD.a)'',
        new = ''lower(NEW.a)'', plain_chunks = [''lower(a)'']\<rparr>\<rparr>"

definition pair_fragment :: fragment where
  "pair_fragment =
     \<lparr>is_trivial = True,
      exprdata = \<lparr>plain = ''(a, b)'', old = ''(OLD.a, OLD.b)'', new = ''(NEW.a, NEW.b)'',
        plain_chunks = [''a'', ''b'']\<rparr>\<rparr>"

definition people_check :: SchemaConstraintTableConstraint where
  "people_check =
     \<lparr>constr_id = ''c1'', schema_constr_name = ''default::age_ok'',
      schema_constr_is_delegated = False, constr_schema = ''s'', constr_object = ''c1'',
      tc_table_name = (''public'', ''people''), tc_exprdata = [age_fragment],
      tc_scope = ''row'', tc_type = ''check''\<rparr>"

definition accounts_unique :: SchemaConstraintTableConstraint where
  "accounts_unique =
     \<lparr>constr_id = ''c2'', schema_constr_name = ''default::acct_unique'',
      schema_constr_is_delegated = False, constr_schema = ''s'', constr_object = ''c2'',
      tc_table_name = (''public'', ''accounts''), tc_exprdata = [pair_fragment, email_fragment],
      tc_scope = ''relation'', tc_type = ''unique''\<rparr>"

definition delegated_people_check :: SchemaConstraintTableConstraint where
  "delegated_people_check = people_check\<lparr>schema_constr_is_delegated := True\<rparr>"

text \<open>
  The unique constraint with the kind \<^verbatim>\<open>check\<close> in its place, and a domain constraint with
  two entries.
\<close>

definition accounts_bad_kind :: SchemaConstraintTableConstraint where
  "accounts_bad_kind = accounts_unique\<lparr>tc_type := ''check''\<rparr>"

definition floor_fragment :: fragment where
  "floor_fragment =
     \<lparr>is_trivial = False,
      exprdata = \<lparr>plain = ''VALUE >= 0'', old = ''OLD.v >= 0'', new = ''NEW.v >= 0'',
        plain_chunks = [''VALUE >= 0'']\<rparr>\<rparr>"

definition range_fragment :: fragment where
  "range_fragment =
     \<lparr>is_trivial = False,
      exprdata = \<lparr>plain = ''VALUE < 150'', old = ''OLD.v < 150'', new = ''NEW.v < 150'',
        plain_chunks = [''VALUE < 150'']\<rparr>\<rparr>"

definition age_domain :: SchemaConstraintDomainConstraint where
  "age_domain =
     \<lparr>constr_id = ''c3'', schema_constr_name = ''default::age_range'',
      schema_constr_is_delegated = False, constr_schema = ''s'', constr_object = ''c3'',
      dc_domain_name = (''public'', ''age_t''), dc_exprdata = [floor_fragment, range_fragment]\<rparr>"

text \<open>The unique constraint with the computed expression as its only entry, and a role.\<close>

definition accounts_single :: SchemaConstraintTableConstraint where
  "accounts_single = accounts_unique\<lparr>tc_exprdata := [email_fragment]\<rparr>"

definition app_user :: Role where
  "app_user =
     \<lparr>role_name = ''app_user'', role_allow_login = True, role_password = None,
      role_is_superuser = False, role_membership = None, role_metadata = None\<rparr>"

text \<open>
  The insert and the update trigger of the unique constraint on \<^verbatim>\<open>accounts\<close> under the
  parameters above.
\<close>

definition accounts_ins_trigger :: Trigger where
  "accounts_ins_trigger =
     \<lparr>trigger_name = ''c2;schemaconstr_instrigger'',
      trigger_table_name = (''public'', ''accounts''), trigger_events = [''insert''],
      trigger_procedure = ProcName (''edgedb'', ''c2_trigproc''),
      trigger_condition = None, trigger_is_constraint = True, trigger_inherit = True\<rparr>"

definition accounts_upd_trigger :: Trigger where
  "accounts_upd_trigger =
     \<lparr>trigger_name = ''c2;schemaconstr_updtrigger'',
      trigger_table_name = (''public'', ''accounts''), trigger_events = [''update''],
      trigger_procedure = ProcName (''edgedb'', ''c2_trigproc''),
      trigger_condition = Some (''((OLD.a, OLD.b) IS DISTINCT FROM (NEW.a, NEW.b))'' @
        '' OR (lower(OLD.a) IS DISTINCT FROM lower(NEW.a))''),
      trigger_is_constraint = True, trigger_inherit = True\<rparr>"

section \<open>Names of the physical constraints\<close>

text \<open>
  The decimal text of a number is read back to the number, so different indexes have
  different texts.
\<close>

lemma digit_value_digit_char: "d < 10 \<Longrightarrow> digit_value (digit_char d) = d"
  by (simp add: digit_value_def digit_char_def)

lemma read_nat_append: "read_nat (xs @ ys) acc = read_nat ys (read_nat xs acc)"
  by (induction xs arbitrary: acc) simp_all

lemma read_nat_str_nat: "read_nat (str_nat n) 0 = n"
proof (induction n rule: str_nat.induct)
  case (1 n)
  show ?case
  proof (cases "n < 10")
    case True
    then show ?thesis
      by (simp add: str_nat.simps [of n] digit_value_digit_char)
  next
    case False
    with 1 have "read_nat (str_nat (n div 10)) 0 = n div 10"
      by simp
    with False show ?thesis
      by (simp add: str_nat.simps [of n] read_nat_append digit_value_digit_char)
  qed
qed

lemma str_nat_inject: "str_nat i = str_nat j \<Longrightarrow> i = j"
  by (metis read_nat_str_nat)

lemma str_nat_0: "str_nat 0 = ''0''" by code_simp

lemma str_nat_Suc_0: "str_nat (Suc 0) = ''1''" by code_simp

text \<open>
  What the code fixes about the names, whatever the name mangler does: the base name is the
  mangled text of the constraint id followed by \<^verbatim>\<open>;schemaconstr\<close>, the \<open>i\<close>-th numbered name
  is the mangled text of that unmangled text followed by \<^verbatim>\<open>#\<close> and the decimal index, and the
  quoted names are \<^verbatim>\<open>quote_ident\<close> of these. The texts handed to the mangler differ for
  different indexes.
\<close>

lemma constraint_name_text:
  "constraint_name cm c False = edgedb_name_to_pg_name cm (constr_id c @ '';schemaconstr'')"
  "constraint_name cm c True = quote_ident cm (constraint_name cm c False)"
  by (simp_all add: constraint_name_def raw_constraint_name_def)

lemma numbered_constraint_name_text:
  "numbered_constraint_name cm c i False =
     edgedb_name_to_pg_name cm (constr_id c @ '';schemaconstr'' @ ''#'' @ str_nat i)"
  "numbered_constraint_name cm c i True =
     quote_ident cm (numbered_constraint_name cm c i False)"
  by (simp_all add: numbered_constraint_name_def raw_constraint_name_def)

lemma numbered_texts_differ:
  "i \<noteq> j \<Longrightarrow>
     raw_constraint_name c @ ''#'' @ str_nat i \<noteq> raw_constraint_name c @ ''#'' @ str_nat j"
  by (auto dest: str_nat_inject)

section \<open>The constraint text\<close>

text \<open>
  The loop over the entries appends one text per entry.
\<close>

lemma unique_constr_exprs_map:
  "unique_constr_exprs es constr_exprs = constr_exprs @
     map (\<lambda>e. if is_trivial e
           then ''UNIQUE ('' @ join '', '' (plain_chunks (exprdata e)) @ '')''
           else ''EXCLUDE ('' @
             join '', '' (map (\<lambda>chunk. chunk @ '' WITH ='') (plain_chunks (exprdata e))) @ '')'')
       es"
  by (induction es arbitrary: constr_exprs) (simp_all add: Let_def)

lemma length_unique_constr_exprs:
  "length (unique_constr_exprs es []) = length es"
  by (simp add: unique_constr_exprs_map)

text \<open>
  C7. For a descriptor that is not of row scope and of kind \<^verbatim>\<open>unique\<close>,
  \<^verbatim>\<open>constraint_code\<close> returns one text per entry, in order: \<^verbatim>\<open>UNIQUE (...)\<close> around the
  comma-joined \<^verbatim>\<open>plain_chunks\<close> for a trivial entry, and \<^verbatim>\<open>EXCLUDE (...)\<close> around the
  comma-joined chunks, each followed by \<^verbatim>\<open>WITH =\<close>, for any other entry.
\<close>

theorem unique_fragment_rendering:
  assumes "tc_scope c \<noteq> ''row''" and "tc_type c = ''unique''"
  shows "constraint_code c = Inr (PyList
     (map (\<lambda>e. if is_trivial e
           then ''UNIQUE ('' @ join '', '' (plain_chunks (exprdata e)) @ '')''
           else ''EXCLUDE ('' @
             join '', '' (map (\<lambda>chunk. chunk @ '' WITH ='') (plain_chunks (exprdata e))) @ '')'')
       (tc_exprdata c)))"
  using assms by (simp add: constraint_code_def unique_constr_exprs_map)

theorem unique_fragment_rendering_witness:
  "tc_scope accounts_unique \<noteq> ''row'' \<and> tc_type accounts_unique = ''unique'' \<and>
   is_trivial pair_fragment \<and> plain_chunks (exprdata pair_fragment) = [''a'', ''b''] \<and>
   \<not> is_trivial email_fragment \<and> plain_chunks (exprdata email_fragment) = [''lower(a)''] \<and>
   tc_exprdata accounts_unique = [pair_fragment, email_fragment] \<and>
   constraint_code accounts_unique =
     Inr (PyList [''UNIQUE (a, b)'', ''EXCLUDE (lower(a) WITH =)''])"
proof -
  have h1: "tc_scope accounts_unique \<noteq> ''row''"
    by (simp add: accounts_unique_def)
  have h2: "tc_type accounts_unique = ''unique''"
    by (simp add: accounts_unique_def)
  show ?thesis
    using unique_fragment_rendering [OF h1 h2]
    by (simp add: accounts_unique_def pair_fragment_def email_fragment_def)
qed

text \<open>
  C9. For a descriptor that is not of row scope and whose kind is not \<^verbatim>\<open>unique\<close>,
  \<^verbatim>\<open>constraint_code\<close> raises \<^verbatim>\<open>ValueError\<close> with the kind in its message and returns no
  text, and so do the add and the drop command that render it.
\<close>

theorem invalid_kind_raises:
  assumes "tc_scope c \<noteq> ''row''" and "tc_type c \<noteq> ''unique''"
  shows "constraint_code c = Inl (ValueError (''unexpected constraint type: '' @ tc_type c)) \<and>
    AlterTableAddMultiConstraint_code cm c =
      Inl (ValueError (''unexpected constraint type: '' @ tc_type c)) \<and>
    AlterTableDropMultiConstraint_code cm c =
      Inl (ValueError (''unexpected constraint type: '' @ tc_type c))"
  using assms
  by (simp add: constraint_code_def AlterTableAddMultiConstraint_code_def
      AlterTableDropMultiConstraint_code_def)

theorem invalid_kind_raises_witness:
  "tc_scope accounts_bad_kind \<noteq> ''row'' \<and> tc_type accounts_bad_kind \<noteq> ''unique'' \<and>
   constraint_code accounts_bad_kind = Inl (ValueError ''unexpected constraint type: check'') \<and>
   AlterTableAddMultiConstraint_code plain_common accounts_bad_kind =
     Inl (ValueError ''unexpected constraint type: check'') \<and>
   AlterTableDropMultiConstraint_code plain_common accounts_bad_kind =
     Inl (ValueError ''unexpected constraint type: check'')"
proof -
  have h1: "tc_scope accounts_bad_kind \<noteq> ''row''"
    by (simp add: accounts_bad_kind_def accounts_unique_def)
  have h2: "tc_type accounts_bad_kind \<noteq> ''unique''"
    by (simp add: accounts_bad_kind_def accounts_unique_def)
  have t: "tc_type accounts_bad_kind = ''check''"
    by (simp add: accounts_bad_kind_def)
  show ?thesis
    using h1 h2 invalid_kind_raises [OF h1 h2, of plain_common]
    by (simp add: t)
qed

text \<open>
  In row scope the table descriptor returns a single \<^verbatim>\<open>CHECK\<close> text for any number of
  entries, and the domain descriptor does for exactly one entry.
\<close>

lemma row_constraint_code:
  assumes "tc_scope c = ''row''"
  shows "constraint_code c = Inr (PyStr (''CHECK ('' @
     (if length (tc_exprdata c) = 1 then plain (exprdata (hd (tc_exprdata c)))
      else ''('' @ join '') AND ('' (map (\<lambda>e. plain (exprdata e)) (tc_exprdata c)) @ '')'') @
     '')''))"
  using assms by (cases "tc_exprdata c") (simp_all add: constraint_code_def Let_def)

lemma domain_constraint_code_single:
  assumes "dc_exprdata d = [e]"
  shows "domain_constraint_code d = Inr (''CHECK ('' @ plain (exprdata e) @ '')'')"
  using assms by (simp add: domain_constraint_code_def)

text \<open>
  C8 at a domain descriptor with two entries: instead of
  \<^verbatim>\<open>CHECK ((VALUE >= 0) AND (VALUE < 150))\<close> the result is a \<^verbatim>\<open>TypeError\<close>, as for every
  domain descriptor whose number of entries is not one.
\<close>

theorem domain_constraint_code_fails:
  "length (dc_exprdata age_domain) = 2 \<and> domain_constraint_code age_domain = Inl TypeError"
  by (simp add: domain_constraint_code_def age_domain_def)

lemma domain_constraint_code_many:
  assumes "length (dc_exprdata d) \<noteq> 1"
  shows "domain_constraint_code d = Inl TypeError"
  using assms by (simp add: domain_constraint_code_def)

section \<open>One physical constraint or several\<close>

text \<open>
  The loops over \<^verbatim>\<open>enumerate(exprs)\<close> build one clause per text, numbered from the start
  index.
\<close>

lemma add_constraint_chunks_map:
  "add_constraint_chunks cm c i exprs chunks = chunks @
     map (\<lambda>k. ''ADD CONSTRAINT '' @ numbered_constraint_name cm c (i + k) True @ '' '' @ exprs ! k)
       [0..<length exprs]"
proof (induction exprs arbitrary: i chunks)
  case Nil
  then show ?case by simp
next
  case (Cons e es)
  have "map (\<lambda>k. ''ADD CONSTRAINT '' @ numbered_constraint_name cm c (i + k) True @ '' '' @
        (e # es) ! k) [0..<length (e # es)] =
      (''ADD CONSTRAINT '' @ numbered_constraint_name cm c i True @ '' '' @ e) #
      map (\<lambda>k. ''ADD CONSTRAINT '' @ numbered_constraint_name cm c (Suc i + k) True @ '' '' @
        es ! k) [0..<length es]"
    by (simp add: upt_conv_Cons map_Suc_upt [symmetric] del: upt_Suc)
  with Cons.IH [of "Suc i"] show ?case
    by (simp add: Let_def)
qed

lemma drop_constraint_chunks_map:
  "drop_constraint_chunks cm c i exprs chunks = chunks @
     map (\<lambda>k. ''DROP CONSTRAINT '' @ numbered_constraint_name cm c (i + k) True)
       [0..<length exprs]"
proof (induction exprs arbitrary: i chunks)
  case Nil
  then show ?case by simp
next
  case (Cons e es)
  have "map (\<lambda>k. ''DROP CONSTRAINT '' @ numbered_constraint_name cm c (i + k) True)
        [0..<length (e # es)] =
      (''DROP CONSTRAINT '' @ numbered_constraint_name cm c i True) #
      map (\<lambda>k. ''DROP CONSTRAINT '' @ numbered_constraint_name cm c (Suc i + k) True)
        [0..<length es]"
    by (simp add: upt_conv_Cons map_Suc_upt [symmetric] del: upt_Suc)
  with Cons.IH [of "Suc i"] show ?case
    by (simp add: Let_def)
qed

text \<open>
  C4, with the kind taken into account. In row scope \<^verbatim>\<open>constraint_code\<close> returns a
  single text for any number of entries, and the add and the drop command render one clause
  under the base name. For a descriptor that is not of row scope and of kind \<^verbatim>\<open>unique\<close> it
  returns one text per entry; with more than one entry the commands render one clause per
  entry under the numbered names, with exactly one entry a single clause under the base name.
  Whenever \<^verbatim>\<open>constraint_code\<close> returns, the test for several constraints succeeds exactly
  when the scope is not row and there is more than one entry.
\<close>

theorem single_multi_selection:
  "(tc_scope c = ''row'' \<longrightarrow>
      (\<exists>s. constraint_code c = Inr (PyStr s) \<and>
         AlterTableAddMultiConstraint_code cm c =
           Inr (''ADD CONSTRAINT '' @ constraint_name cm c True @ '' '' @ s)) \<and>
      AlterTableDropMultiConstraint_code cm c =
        Inr (''DROP CONSTRAINT '' @ constraint_name cm c True)) \<and>
   (tc_scope c \<noteq> ''row'' \<and> tc_type c = ''unique'' \<longrightarrow>
      (\<exists>exprs. constraint_code c = Inr (PyList exprs) \<and>
         length exprs = length (tc_exprdata c) \<and>
         (1 < length (tc_exprdata c) \<longrightarrow>
            AlterTableAddMultiConstraint_code cm c =
              Inr (join '', '' (map (\<lambda>i. ''ADD CONSTRAINT '' @
                numbered_constraint_name cm c i True @ '' '' @ exprs ! i) [0..<length exprs])) \<and>
            AlterTableDropMultiConstraint_code cm c =
              Inr (join '', '' (map (\<lambda>i. ''DROP CONSTRAINT '' @
                numbered_constraint_name cm c i True) [0..<length exprs]))) \<and>
         (length (tc_exprdata c) = 1 \<longrightarrow>
            AlterTableAddMultiConstraint_code cm c =
              Inr (''ADD CONSTRAINT '' @ constraint_name cm c True @ '' '' @ exprs ! 0) \<and>
            AlterTableDropMultiConstraint_code cm c =
              Inr (''DROP CONSTRAINT '' @ constraint_name cm c True)))) \<and>
   (\<forall>t. constraint_code c = Inr t \<longrightarrow>
      (is_list_of_many t \<longleftrightarrow> tc_scope c \<noteq> ''row'' \<and> 1 < length (tc_exprdata c)))"
proof (intro conjI impI allI)
  assume row: "tc_scope c = ''row''"
  from row_constraint_code [OF row]
  show "\<exists>s. constraint_code c = Inr (PyStr s) \<and>
      AlterTableAddMultiConstraint_code cm c =
        Inr (''ADD CONSTRAINT '' @ constraint_name cm c True @ '' '' @ s)"
    by (simp add: AlterTableAddMultiConstraint_code_def)
  from row_constraint_code [OF row]
  show "AlterTableDropMultiConstraint_code cm c =
      Inr (''DROP CONSTRAINT '' @ constraint_name cm c True)"
    by (simp add: AlterTableDropMultiConstraint_code_def)
next
  assume "tc_scope c \<noteq> ''row'' \<and> tc_type c = ''unique''"
  then have code: "constraint_code c = Inr (PyList (unique_constr_exprs (tc_exprdata c) []))"
    by (simp add: constraint_code_def)
  let ?exprs = "unique_constr_exprs (tc_exprdata c) []"
  have len: "length ?exprs = length (tc_exprdata c)"
    by (rule length_unique_constr_exprs)
  have many: "1 < length (tc_exprdata c) \<longrightarrow>
      AlterTableAddMultiConstraint_code cm c =
        Inr (join '', '' (map (\<lambda>i. ''ADD CONSTRAINT '' @
          numbered_constraint_name cm c i True @ '' '' @ ?exprs ! i) [0..<length ?exprs])) \<and>
      AlterTableDropMultiConstraint_code cm c =
        Inr (join '', '' (map (\<lambda>i. ''DROP CONSTRAINT '' @
          numbered_constraint_name cm c i True) [0..<length ?exprs]))"
    using code len
    by (simp add: AlterTableAddMultiConstraint_code_def AlterTableDropMultiConstraint_code_def
        add_constraint_chunks_map drop_constraint_chunks_map)
  have one: "length (tc_exprdata c) = 1 \<longrightarrow>
      AlterTableAddMultiConstraint_code cm c =
        Inr (''ADD CONSTRAINT '' @ constraint_name cm c True @ '' '' @ ?exprs ! 0) \<and>
      AlterTableDropMultiConstraint_code cm c =
        Inr (''DROP CONSTRAINT '' @ constraint_name cm c True)"
  proof
    assume l: "length (tc_exprdata c) = 1"
    with len obtain e where e: "?exprs = [e]"
      by (cases ?exprs) simp_all
    with code show "AlterTableAddMultiConstraint_code cm c =
        Inr (''ADD CONSTRAINT '' @ constraint_name cm c True @ '' '' @ ?exprs ! 0) \<and>
      AlterTableDropMultiConstraint_code cm c =
        Inr (''DROP CONSTRAINT '' @ constraint_name cm c True)"
      by (simp add: AlterTableAddMultiConstraint_code_def AlterTableDropMultiConstraint_code_def)
  qed
  from code len many one
  show "\<exists>exprs. constraint_code c = Inr (PyList exprs) \<and>
         length exprs = length (tc_exprdata c) \<and>
         (1 < length (tc_exprdata c) \<longrightarrow>
            AlterTableAddMultiConstraint_code cm c =
              Inr (join '', '' (map (\<lambda>i. ''ADD CONSTRAINT '' @
                numbered_constraint_name cm c i True @ '' '' @ exprs ! i) [0..<length exprs])) \<and>
            AlterTableDropMultiConstraint_code cm c =
              Inr (join '', '' (map (\<lambda>i. ''DROP CONSTRAINT '' @
                numbered_constraint_name cm c i True) [0..<length exprs]))) \<and>
         (length (tc_exprdata c) = 1 \<longrightarrow>
            AlterTableAddMultiConstraint_code cm c =
              Inr (''ADD CONSTRAINT '' @ constraint_name cm c True @ '' '' @ exprs ! 0) \<and>
            AlterTableDropMultiConstraint_code cm c =
              Inr (''DROP CONSTRAINT '' @ constraint_name cm c True))"
    by blast
next
  fix t
  assume "constraint_code c = Inr t"
  then show "is_list_of_many t \<longleftrightarrow> tc_scope c \<noteq> ''row'' \<and> 1 < length (tc_exprdata c)"
    by (auto simp add: constraint_code_def length_unique_constr_exprs Let_def
        split: if_splits)
qed

theorem single_multi_selection_witness:
  "tc_scope people_check = ''row'' \<and>
   constraint_code people_check = Inr (PyStr ''CHECK (age >= 0)'') \<and>
   AlterTableAddMultiConstraint_code plain_common people_check =
     Inr (''ADD CONSTRAINT '' @ [CHR 0x22] @ ''c1;schemaconstr'' @ [CHR 0x22] @
       '' CHECK (age >= 0)'') \<and>
   tc_scope accounts_unique \<noteq> ''row'' \<and> tc_type accounts_unique = ''unique'' \<and>
   1 < length (tc_exprdata accounts_unique) \<and>
   AlterTableAddMultiConstraint_code plain_common accounts_unique =
     Inr (''ADD CONSTRAINT '' @ [CHR 0x22] @ ''c2;schemaconstr#0'' @ [CHR 0x22] @
       '' UNIQUE (a, b), '' @
       ''ADD CONSTRAINT '' @ [CHR 0x22] @ ''c2;schemaconstr#1'' @ [CHR 0x22] @
       '' EXCLUDE (lower(a) WITH =)'') \<and>
   AlterTableDropMultiConstraint_code plain_common accounts_unique =
     Inr (''DROP CONSTRAINT '' @ [CHR 0x22] @ ''c2;schemaconstr#0'' @ [CHR 0x22] @ '', '' @
       ''DROP CONSTRAINT '' @ [CHR 0x22] @ ''c2;schemaconstr#1'' @ [CHR 0x22]) \<and>
   tc_scope accounts_single \<noteq> ''row'' \<and> tc_type accounts_single = ''unique'' \<and>
   length (tc_exprdata accounts_single) = 1 \<and>
   AlterTableAddMultiConstraint_code plain_common accounts_single =
     Inr (''ADD CONSTRAINT '' @ [CHR 0x22] @ ''c2;schemaconstr'' @ [CHR 0x22] @
       '' EXCLUDE (lower(a) WITH =)'') \<and>
   is_list_of_many (PyList [''UNIQUE (a, b)'', ''EXCLUDE (lower(a) WITH =)'']) \<and>
   \<not> is_list_of_many (PyList [''EXCLUDE (lower(a) WITH =)''])"
proof -
  have code1: "constraint_code people_check = Inr (PyStr ''CHECK (age >= 0)'')"
    by (simp add: constraint_code_def people_check_def age_fragment_def)
  have code2: "constraint_code accounts_unique =
      Inr (PyList [''UNIQUE (a, b)'', ''EXCLUDE (lower(a) WITH =)''])"
    by (simp add: constraint_code_def accounts_unique_def pair_fragment_def email_fragment_def)
  have code3: "constraint_code accounts_single = Inr (PyList [''EXCLUDE (lower(a) WITH =)''])"
    by (simp add: constraint_code_def accounts_single_def accounts_unique_def
        email_fragment_def)
  have names: "constraint_name plain_common people_check True =
      [CHR 0x22] @ ''c1;schemaconstr'' @ [CHR 0x22]"
    "constraint_name plain_common accounts_single True =
      [CHR 0x22] @ ''c2;schemaconstr'' @ [CHR 0x22]"
    "numbered_constraint_name plain_common accounts_unique 0 True =
      [CHR 0x22] @ ''c2;schemaconstr#0'' @ [CHR 0x22]"
    "numbered_constraint_name plain_common accounts_unique (Suc 0) True =
      [CHR 0x22] @ ''c2;schemaconstr#1'' @ [CHR 0x22]"
    by (simp_all add: constraint_name_def numbered_constraint_name_def raw_constraint_name_def
        plain_common_def people_check_def accounts_single_def accounts_unique_def
        str_nat_0 str_nat_Suc_0)
  have scopes: "tc_scope people_check = ''row''" "tc_scope accounts_unique \<noteq> ''row''"
    "tc_type accounts_unique = ''unique''" "tc_scope accounts_single \<noteq> ''row''"
    "tc_type accounts_single = ''unique''"
    "tc_exprdata accounts_unique = [pair_fragment, email_fragment]"
    "tc_exprdata accounts_single = [email_fragment]"
    by (simp_all add: people_check_def accounts_unique_def accounts_single_def)
  show ?thesis
    using single_multi_selection [of people_check plain_common]
      single_multi_selection [of accounts_unique plain_common]
      single_multi_selection [of accounts_single plain_common]
    by (simp add: code1 code2 code3 names scopes upt_conv_Cons)
qed

text \<open>
  C4, as the claim states it, fails for a descriptor that is not of row scope, has two
  entries and the kind \<^verbatim>\<open>check\<close>: nothing is rendered, the kind is rejected.
\<close>

theorem single_multi_selection_counterexample:
  "tc_scope accounts_bad_kind \<noteq> ''row'' \<and> 1 < length (tc_exprdata accounts_bad_kind) \<and>
   constraint_code accounts_bad_kind = Inl (ValueError ''unexpected constraint type: check'') \<and>
   AlterTableAddMultiConstraint_code plain_common accounts_bad_kind =
     Inl (ValueError ''unexpected constraint type: check'') \<and>
   AlterTableDropMultiConstraint_code plain_common accounts_bad_kind =
     Inl (ValueError ''unexpected constraint type: check'')"
  by (simp add: constraint_code_def AlterTableAddMultiConstraint_code_def
      AlterTableDropMultiConstraint_code_def accounts_bad_kind_def accounts_unique_def)

section \<open>The lifecycle transitions\<close>

text \<open>
  \<^verbatim>\<open>create_constraint\<close> and \<^verbatim>\<open>drop_constraint\<close> only extend the group at its end.
\<close>

lemma create_constraint_appends:
  "create_constraint cm name c cmds = cmds @ create_constraint cm name c []"
  by (simp add: create_constraint_def add_command_def add_commands_def Let_def)

lemma drop_constraint_appends:
  "drop_constraint cm name c cmds = cmds @ drop_constraint cm name c []"
  by (simp add: drop_constraint_def add_command_def add_commands_def Let_def)

text \<open>
  C1. An alter command on a fresh group emits one of four command sequences, selected by the
  delegation flags of the old and the new descriptor: nothing when both are delegated, the
  commands of the create transition of the new descriptor when only the old one is delegated,
  the commands of the drop transition of the old descriptor when only the new one is
  delegated, and the commands of that drop followed by the commands of that create when
  neither is delegated.
\<close>

theorem alter_transition_matrix:
  "(delegated old_c \<and> delegated new_c \<longrightarrow>
      AlterTableAlterInheritableConstraint_generate cm name old_c new_c [] = []) \<and>
   (delegated old_c \<and> \<not> delegated new_c \<longrightarrow>
      AlterTableAlterInheritableConstraint_generate cm name old_c new_c [] =
        AlterTableAddInheritableConstraint_generate cm name new_c []) \<and>
   (\<not> delegated old_c \<and> delegated new_c \<longrightarrow>
      AlterTableAlterInheritableConstraint_generate cm name old_c new_c [] =
        AlterTableDropInheritableConstraint_generate cm name old_c []) \<and>
   (\<not> delegated old_c \<and> \<not> delegated new_c \<longrightarrow>
      AlterTableAlterInheritableConstraint_generate cm name old_c new_c [] =
        AlterTableDropInheritableConstraint_generate cm name old_c [] @
        AlterTableAddInheritableConstraint_generate cm name new_c [])"
proof -
  have "create_constraint cm name new_c (drop_constraint cm name old_c []) =
      drop_constraint cm name old_c [] @ create_constraint cm name new_c []"
    by (rule create_constraint_appends)
  then show ?thesis
    by (simp add: AlterTableAlterInheritableConstraint_generate_def alter_constraint_def
        AlterTableAddInheritableConstraint_generate_def
        AlterTableDropInheritableConstraint_generate_def Let_def)
qed

theorem alter_transition_matrix_witness:
  "AlterTableAlterInheritableConstraint_generate plain_common (''public'', ''people'')
     delegated_people_check delegated_people_check [] = [] \<and>
   AlterTableAlterInheritableConstraint_generate plain_common (''public'', ''people'')
     delegated_people_check people_check [] =
     [AlterTable (''public'', ''people'') [AlterTableAddMultiConstraint people_check]] \<and>
   AlterTableAlterInheritableConstraint_generate plain_common (''public'', ''people'')
     people_check delegated_people_check [] =
     [AlterTable (''public'', ''people'') [AlterTableDropMultiConstraint people_check]] \<and>
   AlterTableAlterInheritableConstraint_generate plain_common (''public'', ''people'')
     people_check people_check [] =
     [AlterTable (''public'', ''people'') [AlterTableDropMultiConstraint people_check],
      AlterTable (''public'', ''people'') [AlterTableAddMultiConstraint people_check]]"
proof -
  have flags: "delegated delegated_people_check" "\<not> delegated people_check"
    by (simp_all add: delegated_def delegated_people_check_def people_check_def)
  have native: "is_natively_inherited people_check"
    by (simp add: is_natively_inherited_def people_check_def)
  have add: "AlterTableAddInheritableConstraint_generate plain_common (''public'', ''people'')
      people_check [] =
      [AlterTable (''public'', ''people'') [AlterTableAddMultiConstraint people_check]]"
    using flags native
    by (simp add: AlterTableAddInheritableConstraint_generate_def create_constraint_def
        add_command_def)
  have drop: "AlterTableDropInheritableConstraint_generate plain_common (''public'', ''people'')
      people_check [] =
      [AlterTable (''public'', ''people'') [AlterTableDropMultiConstraint people_check]]"
    using flags native
    by (simp add: AlterTableDropInheritableConstraint_generate_def drop_constraint_def
        add_command_def)
  show ?thesis
    using flags add drop
      alter_transition_matrix [of delegated_people_check delegated_people_check plain_common
        "(''public'', ''people'')"]
      alter_transition_matrix [of delegated_people_check people_check plain_common
        "(''public'', ''people'')"]
      alter_transition_matrix [of people_check delegated_people_check plain_common
        "(''public'', ''people'')"]
      alter_transition_matrix [of people_check people_check plain_common
        "(''public'', ''people'')"]
    by simp
qed

text \<open>
  C2. For a delegated descriptor the create, the rename and the drop command leave a fresh
  group empty: no constraint, trigger or trigger function command is emitted. For the rename
  the flag is that of the old descriptor.
\<close>

theorem delegated_emits_nothing:
  assumes "delegated c"
  shows "AlterTableAddInheritableConstraint_generate cm name c [] = [] \<and>
    AlterTableRenameInheritableConstraint_generate cm name c new_c [] = [] \<and>
    AlterTableDropInheritableConstraint_generate cm name c [] = []"
  using assms
  by (simp add: AlterTableAddInheritableConstraint_generate_def
      AlterTableRenameInheritableConstraint_generate_def
      AlterTableDropInheritableConstraint_generate_def)

theorem delegated_emits_nothing_witness:
  "delegated delegated_people_check \<and>
   AlterTableAddInheritableConstraint_generate plain_common (''public'', ''people'')
     delegated_people_check [] = [] \<and>
   AlterTableRenameInheritableConstraint_generate plain_common (''public'', ''people'')
     delegated_people_check accounts_unique [] = [] \<and>
   AlterTableDropInheritableConstraint_generate plain_common (''public'', ''people'')
     delegated_people_check [] = []"
proof -
  have flag: "delegated delegated_people_check"
    by (simp add: delegated_def delegated_people_check_def people_check_def)
  show ?thesis
    using flag delegated_emits_nothing [OF flag, of plain_common "(''public'', ''people'')"
      accounts_unique]
    by simp
qed

text \<open>
  C5, as the code has it. For a descriptor that is neither delegated nor natively inherited
  the create command emits six commands, in this order: the \<^verbatim>\<open>ALTER TABLE\<close> that adds the
  physical constraint, the create-or-replace of the trigger function with the generated body,
  the creation of the insert trigger bound to that function (an inheritable constraint
  trigger), the disable step of the insert trigger (self-only), the creation of the update
  trigger with \<^verbatim>\<open>get_trigger_condition()\<close> as its condition, and the disable step of the
  update trigger (self-only). Each trigger is disabled directly after its own creation.
\<close>

theorem create_emits_in_order:
  assumes "\<not> delegated c" and "\<not> is_natively_inherited c"
  shows "AlterTableAddInheritableConstraint_generate cm name c [] =
    [AlterTable name [AlterTableAddMultiConstraint c],
     CreateOrReplaceFunction
       \<lparr>function_name = get_trigger_procname cm c,
        function_text = get_trigger_proc_text cm c,
        function_volatility = ''stable'', function_returns = ''trigger'',
        function_language = ''plpgsql''\<rparr>,
     CreateTrigger
       \<lparr>trigger_name = edgedb_name_to_pg_name cm (raw_constraint_name c @ ''_instrigger''),
        trigger_table_name = name, trigger_events = [''insert''],
        trigger_procedure = ProcName (get_trigger_procname cm c),
        trigger_condition = None, trigger_is_constraint = True, trigger_inherit = True\<rparr>,
     DisableTrigger
       \<lparr>trigger_name = edgedb_name_to_pg_name cm (raw_constraint_name c @ ''_instrigger''),
        trigger_table_name = name, trigger_events = [''insert''],
        trigger_procedure = ProcName (get_trigger_procname cm c),
        trigger_condition = None, trigger_is_constraint = True, trigger_inherit = True\<rparr>
       True,
     CreateTrigger
       \<lparr>trigger_name = edgedb_name_to_pg_name cm (raw_constraint_name c @ ''_updtrigger''),
        trigger_table_name = name, trigger_events = [''update''],
        trigger_procedure = ProcName (get_trigger_procname cm c),
        trigger_condition = Some (get_trigger_condition c),
        trigger_is_constraint = True, trigger_inherit = True\<rparr>,
     DisableTrigger
       \<lparr>trigger_name = edgedb_name_to_pg_name cm (raw_constraint_name c @ ''_updtrigger''),
        trigger_table_name = name, trigger_events = [''update''],
        trigger_procedure = ProcName (get_trigger_procname cm c),
        trigger_condition = Some (get_trigger_condition c),
        trigger_is_constraint = True, trigger_inherit = True\<rparr>
       True]"
  using assms
  by (simp add: AlterTableAddInheritableConstraint_generate_def create_constraint_def
      create_constr_trigger_function_def create_constr_trigger_def
      add_command_def add_commands_def Let_def)

theorem create_emits_in_order_witness:
  "\<not> delegated accounts_unique \<and> \<not> is_natively_inherited accounts_unique \<and>
   AlterTableAddInheritableConstraint_generate plain_common (''public'', ''accounts'')
     accounts_unique [] =
    [AlterTable (''public'', ''accounts'') [AlterTableAddMultiConstraint accounts_unique],
     CreateOrReplaceFunction
       \<lparr>function_name = (''edgedb'', ''c2_trigproc''),
        function_text = get_trigger_proc_text plain_common accounts_unique,
        function_volatility = ''stable'', function_returns = ''trigger'',
        function_language = ''plpgsql''\<rparr>,
     CreateTrigger accounts_ins_trigger,
     DisableTrigger accounts_ins_trigger True,
     CreateTrigger accounts_upd_trigger,
     DisableTrigger accounts_upd_trigger True]"
proof -
  have h1: "\<not> delegated accounts_unique"
    by (simp add: delegated_def accounts_unique_def)
  have h2: "\<not> is_natively_inherited accounts_unique"
    by (simp add: is_natively_inherited_def accounts_unique_def)
  have names: "raw_constraint_name accounts_unique = ''c2;schemaconstr''"
    "get_trigger_procname plain_common accounts_unique = (''edgedb'', ''c2_trigproc'')"
    by (simp_all add: raw_constraint_name_def get_trigger_procname_def accounts_unique_def
        plain_common_def)
  have cond: "get_trigger_condition accounts_unique =
      ''((OLD.a, OLD.b) IS DISTINCT FROM (NEW.a, NEW.b))'' @
      '' OR (lower(OLD.a) IS DISTINCT FROM lower(NEW.a))''"
    by (simp add: get_trigger_condition_def accounts_unique_def pair_fragment_def
        email_fragment_def)
  have mangle: "edgedb_name_to_pg_name plain_common = (\<lambda>name. name)"
    by (simp add: plain_common_def)
  show ?thesis
    using h1 h2
      create_emits_in_order [OF h1 h2, of plain_common "(''public'', ''accounts'')"]
    by (simp only: names cond mangle accounts_ins_trigger_def accounts_upd_trigger_def) simp
qed

text \<open>The four trigger commands of the unique constraint on \<^verbatim>\<open>accounts\<close>.\<close>

lemma accounts_unique_triggers:
  "create_constr_trigger plain_common (''public'', ''accounts'') accounts_unique
     (''edgedb'', ''c2_trigproc'') =
   [CreateTrigger accounts_ins_trigger, DisableTrigger accounts_ins_trigger True,
    CreateTrigger accounts_upd_trigger, DisableTrigger accounts_upd_trigger True]"
  by (simp add: create_constr_trigger_def accounts_ins_trigger_def accounts_upd_trigger_def
      raw_constraint_name_def get_trigger_condition_def plain_common_def accounts_unique_def
      pair_fragment_def email_fragment_def Let_def)

text \<open>
  C5, as the claim states it, puts the creation of the update trigger before both disable
  steps. For the unique constraint on \<^verbatim>\<open>accounts\<close> the fourth command is the disable step of
  the insert trigger and the fifth the creation of the update trigger, so the emitted list is
  not the list in the order of the claim.
\<close>

theorem create_emits_in_order_counterexample:
  "AlterTableAddInheritableConstraint_generate plain_common (''public'', ''accounts'')
     accounts_unique [] ! 2 = CreateTrigger accounts_ins_trigger \<and>
   AlterTableAddInheritableConstraint_generate plain_common (''public'', ''accounts'')
     accounts_unique [] ! 3 = DisableTrigger accounts_ins_trigger True \<and>
   AlterTableAddInheritableConstraint_generate plain_common (''public'', ''accounts'')
     accounts_unique [] ! 4 = CreateTrigger accounts_upd_trigger \<and>
   AlterTableAddInheritableConstraint_generate plain_common (''public'', ''accounts'')
     accounts_unique [] \<noteq>
    [AlterTable (''public'', ''accounts'') [AlterTableAddMultiConstraint accounts_unique],
     CreateOrReplaceFunction
       \<lparr>function_name = (''edgedb'', ''c2_trigproc''),
        function_text = get_trigger_proc_text plain_common accounts_unique,
        function_volatility = ''stable'', function_returns = ''trigger'',
        function_language = ''plpgsql''\<rparr>,
     CreateTrigger accounts_ins_trigger,
     CreateTrigger accounts_upd_trigger,
     DisableTrigger accounts_ins_trigger True,
     DisableTrigger accounts_upd_trigger True]"
proof -
  have flags: "\<not> delegated accounts_unique" "\<not> is_natively_inherited accounts_unique"
    by (simp_all add: delegated_def is_natively_inherited_def accounts_unique_def)
  have proc: "get_trigger_procname plain_common accounts_unique = (''edgedb'', ''c2_trigproc'')"
    by (simp add: get_trigger_procname_def accounts_unique_def plain_common_def)
  have cmds: "AlterTableAddInheritableConstraint_generate plain_common (''public'', ''accounts'')
      accounts_unique [] =
      AlterTable (''public'', ''accounts'') [AlterTableAddMultiConstraint accounts_unique] #
      create_constr_trigger_function plain_common accounts_unique @
      [CreateTrigger accounts_ins_trigger, DisableTrigger accounts_ins_trigger True,
       CreateTrigger accounts_upd_trigger, DisableTrigger accounts_upd_trigger True]"
    using flags
    by (simp add: AlterTableAddInheritableConstraint_generate_def create_constraint_def
        add_command_def add_commands_def proc accounts_unique_triggers)
  show ?thesis
    by (simp add: cmds create_constr_trigger_function_def)
qed

text \<open>
  C6. For a descriptor that is neither delegated nor natively inherited the drop command
  emits four commands: the drop of the insert trigger, the drop of the update trigger, the
  drop of the trigger function, and last the \<^verbatim>\<open>ALTER TABLE\<close> that drops the physical
  constraint.
\<close>

theorem drop_emits_in_order:
  assumes "\<not> delegated c" and "\<not> is_natively_inherited c"
  shows "AlterTableDropInheritableConstraint_generate cm name c [] =
    [DropTrigger
       \<lparr>trigger_name = edgedb_name_to_pg_name cm (raw_constraint_name c @ ''_instrigger''),
        trigger_table_name = name, trigger_events = [''insert''],
        trigger_procedure = ProcStr ''null'',
        trigger_condition = None, trigger_is_constraint = True, trigger_inherit = True\<rparr>,
     DropTrigger
       \<lparr>trigger_name = edgedb_name_to_pg_name cm (raw_constraint_name c @ ''_updtrigger''),
        trigger_table_name = name, trigger_events = [''update''],
        trigger_procedure = ProcStr ''null'',
        trigger_condition = None, trigger_is_constraint = True, trigger_inherit = True\<rparr>,
     DropFunction (get_trigger_procname cm c) [],
     AlterTable name [AlterTableDropMultiConstraint c]]"
  using assms
  by (simp add: AlterTableDropInheritableConstraint_generate_def drop_constraint_def
      drop_constr_trigger_def drop_constr_trigger_function_def
      add_command_def add_commands_def Let_def)

theorem drop_emits_in_order_witness:
  "\<not> delegated accounts_unique \<and> \<not> is_natively_inherited accounts_unique \<and>
   AlterTableDropInheritableConstraint_generate plain_common (''public'', ''accounts'')
     accounts_unique [] =
    [DropTrigger
       \<lparr>trigger_name = ''c2;schemaconstr_instrigger'',
        trigger_table_name = (''public'', ''accounts''), trigger_events = [''insert''],
        trigger_procedure = ProcStr ''null'',
        trigger_condition = None, trigger_is_constraint = True, trigger_inherit = True\<rparr>,
     DropTrigger
       \<lparr>trigger_name = ''c2;schemaconstr_updtrigger'',
        trigger_table_name = (''public'', ''accounts''), trigger_events = [''update''],
        trigger_procedure = ProcStr ''null'',
        trigger_condition = None, trigger_is_constraint = True, trigger_inherit = True\<rparr>,
     DropFunction (''edgedb'', ''c2_trigproc'') [],
     AlterTable (''public'', ''accounts'') [AlterTableDropMultiConstraint accounts_unique]]"
proof -
  have h1: "\<not> delegated accounts_unique"
    by (simp add: delegated_def accounts_unique_def)
  have h2: "\<not> is_natively_inherited accounts_unique"
    by (simp add: is_natively_inherited_def accounts_unique_def)
  have names: "raw_constraint_name accounts_unique = ''c2;schemaconstr''"
    "get_trigger_procname plain_common accounts_unique = (''edgedb'', ''c2_trigproc'')"
    by (simp_all add: raw_constraint_name_def get_trigger_procname_def accounts_unique_def
        plain_common_def)
  show ?thesis
    using h1 h2 names
      drop_emits_in_order [OF h1 h2, of plain_common "(''public'', ''accounts'')"]
    by (simp add: plain_common_def)
qed

section \<open>Role commands\<close>

text \<open>
  C10. For a role whose password is \<^verbatim>\<open>None\<close> or the empty string, the create and the
  alter command render the clause \<^verbatim>\<open>PASSWORD NULL\<close>; for a non-empty password they render
  \<^verbatim>\<open>PASSWORD\<close> followed by the quoted literal. The empty string and \<^verbatim>\<open>None\<close> give the
  same statement.
\<close>

theorem role_password_clause:
  "(role_password r = None \<or> role_password r = Some [] \<longrightarrow>
      CreateRole_code cm r =
        ''CREATE ROLE '' @ quote_ident cm (role_name r) @ '' '' @
        (if role_is_superuser r then ''SUPERUSER'' else []) @ '' '' @
        (if role_allow_login r then ''LOGIN'' else ''NOLOGIN'') @ '' '' @
        ''PASSWORD NULL'' @ '' '' @
        (if truthy (role_membership r)
         then ''IN ROLE '' @ join '', '' (map (quote_ident cm) (the (role_membership r)))
         else []) \<and>
      AlterRole_code cm r =
        ''ALTER ROLE '' @ quote_ident cm (role_name r) @ '' '' @
        (if role_is_superuser r then ''SUPERUSER'' else []) @ '' '' @
        (if role_allow_login r then ''LOGIN'' else ''NOLOGIN'') @ '' '' @
        ''PASSWORD NULL'') \<and>
   (\<forall>p. role_password r = Some p \<and> p \<noteq> [] \<longrightarrow>
      CreateRole_code cm r =
        ''CREATE ROLE '' @ quote_ident cm (role_name r) @ '' '' @
        (if role_is_superuser r then ''SUPERUSER'' else []) @ '' '' @
        (if role_allow_login r then ''LOGIN'' else ''NOLOGIN'') @ '' '' @
        ''PASSWORD '' @ quote_literal cm p @ '' '' @
        (if truthy (role_membership r)
         then ''IN ROLE '' @ join '', '' (map (quote_ident cm) (the (role_membership r)))
         else []) \<and>
      AlterRole_code cm r =
        ''ALTER ROLE '' @ quote_ident cm (role_name r) @ '' '' @
        (if role_is_superuser r then ''SUPERUSER'' else []) @ '' '' @
        (if role_allow_login r then ''LOGIN'' else ''NOLOGIN'') @ '' '' @
        ''PASSWORD '' @ quote_literal cm p) \<and>
   CreateRole_code cm (r\<lparr>role_password := Some []\<rparr>) =
     CreateRole_code cm (r\<lparr>role_password := None\<rparr>) \<and>
   AlterRole_code cm (r\<lparr>role_password := Some []\<rparr>) =
     AlterRole_code cm (r\<lparr>role_password := None\<rparr>)"
proof -
  have none: "role_password r = None \<or> role_password r = Some [] \<Longrightarrow>
      RoleCommand_render cm r =
        ''ROLE '' @ quote_ident cm (role_name r) @ '' '' @
        (if role_is_superuser r then ''SUPERUSER'' else []) @ '' '' @
        (if role_allow_login r then ''LOGIN'' else ''NOLOGIN'') @ '' '' @ ''PASSWORD NULL''"
    by (auto simp add: RoleCommand_render_def get_id_def Let_def)
  have some: "\<And>p. role_password r = Some p \<Longrightarrow> p \<noteq> [] \<Longrightarrow>
      RoleCommand_render cm r =
        ''ROLE '' @ quote_ident cm (role_name r) @ '' '' @
        (if role_is_superuser r then ''SUPERUSER'' else []) @ '' '' @
        (if role_allow_login r then ''LOGIN'' else ''NOLOGIN'') @ '' '' @
        ''PASSWORD '' @ quote_literal cm p"
    by (simp add: RoleCommand_render_def get_id_def Let_def)
  have create: "CreateRole_code cm r = ''CREATE '' @ RoleCommand_render cm r @ '' '' @
      (if truthy (role_membership r)
       then ''IN ROLE '' @ join '', '' (map (quote_ident cm) (the (role_membership r)))
       else [])"
    by (cases "role_membership r") (simp_all add: CreateRole_code_def Let_def)
  have same: "RoleCommand_render cm (r\<lparr>role_password := Some []\<rparr>) =
      RoleCommand_render cm (r\<lparr>role_password := None\<rparr>)"
    by (simp add: RoleCommand_render_def get_id_def Let_def)
  show ?thesis
  proof (intro conjI impI allI)
    assume h: "role_password r = None \<or> role_password r = Some []"
    show "CreateRole_code cm r =
        ''CREATE ROLE '' @ quote_ident cm (role_name r) @ '' '' @
        (if role_is_superuser r then ''SUPERUSER'' else []) @ '' '' @
        (if role_allow_login r then ''LOGIN'' else ''NOLOGIN'') @ '' '' @
        ''PASSWORD NULL'' @ '' '' @
        (if truthy (role_membership r)
         then ''IN ROLE '' @ join '', '' (map (quote_ident cm) (the (role_membership r)))
         else [])"
      by (simp only: create none [OF h]) simp
    show "AlterRole_code cm r =
        ''ALTER ROLE '' @ quote_ident cm (role_name r) @ '' '' @
        (if role_is_superuser r then ''SUPERUSER'' else []) @ '' '' @
        (if role_allow_login r then ''LOGIN'' else ''NOLOGIN'') @ '' '' @
        ''PASSWORD NULL''"
      by (simp only: AlterRole_code_def none [OF h]) simp
  next
    fix p
    assume h: "role_password r = Some p \<and> p \<noteq> []"
    then have r: "RoleCommand_render cm r =
        ''ROLE '' @ quote_ident cm (role_name r) @ '' '' @
        (if role_is_superuser r then ''SUPERUSER'' else []) @ '' '' @
        (if role_allow_login r then ''LOGIN'' else ''NOLOGIN'') @ '' '' @
        ''PASSWORD '' @ quote_literal cm p"
      using some by blast
    show "CreateRole_code cm r =
        ''CREATE ROLE '' @ quote_ident cm (role_name r) @ '' '' @
        (if role_is_superuser r then ''SUPERUSER'' else []) @ '' '' @
        (if role_allow_login r then ''LOGIN'' else ''NOLOGIN'') @ '' '' @
        ''PASSWORD '' @ quote_literal cm p @ '' '' @
        (if truthy (role_membership r)
         then ''IN ROLE '' @ join '', '' (map (quote_ident cm) (the (role_membership r)))
         else [])"
      by (simp only: create r) simp
    show "AlterRole_code cm r =
        ''ALTER ROLE '' @ quote_ident cm (role_name r) @ '' '' @
        (if role_is_superuser r then ''SUPERUSER'' else []) @ '' '' @
        (if role_allow_login r then ''LOGIN'' else ''NOLOGIN'') @ '' '' @
        ''PASSWORD '' @ quote_literal cm p"
      by (simp only: AlterRole_code_def r) simp
  next
    show "CreateRole_code cm (r\<lparr>role_password := Some []\<rparr>) =
        CreateRole_code cm (r\<lparr>role_password := None\<rparr>)"
      by (simp add: CreateRole_code_def same)
    show "AlterRole_code cm (r\<lparr>role_password := Some []\<rparr>) =
        AlterRole_code cm (r\<lparr>role_password := None\<rparr>)"
      by (simp add: AlterRole_code_def same)
  qed
qed

theorem role_password_clause_witness:
  "role_password app_user = None \<and>
   CreateRole_code plain_common app_user =
     ''CREATE ROLE '' @ [CHR 0x22] @ ''app_user'' @ [CHR 0x22] @ ''  LOGIN PASSWORD NULL '' \<and>
   role_password (app_user\<lparr>role_password := Some []\<rparr>) = Some [] \<and>
   AlterRole_code plain_common (app_user\<lparr>role_password := Some []\<rparr>) =
     ''ALTER ROLE '' @ [CHR 0x22] @ ''app_user'' @ [CHR 0x22] @ ''  LOGIN PASSWORD NULL'' \<and>
   role_password (app_user\<lparr>role_password := Some ''s3cret''\<rparr>) = Some ''s3cret'' \<and>
   ''s3cret'' \<noteq> [] \<and>
   AlterRole_code plain_common (app_user\<lparr>role_password := Some ''s3cret''\<rparr>) =
     ''ALTER ROLE '' @ [CHR 0x22] @ ''app_user'' @ [CHR 0x22] @ ''  LOGIN PASSWORD '' @
       [CHR 0x27] @ ''s3cret'' @ [CHR 0x27] \<and>
   CreateRole_code plain_common
       (app_user\<lparr>role_password := Some ''s3cret'', role_membership := Some [''staff'', ''ops'']\<rparr>) =
     ''CREATE ROLE '' @ [CHR 0x22] @ ''app_user'' @ [CHR 0x22] @ ''  LOGIN PASSWORD '' @
       [CHR 0x27] @ ''s3cret'' @ [CHR 0x27] @ '' IN ROLE '' @
       [CHR 0x22] @ ''staff'' @ [CHR 0x22] @ '', '' @ [CHR 0x22] @ ''ops'' @ [CHR 0x22]"
  using role_password_clause [of app_user plain_common]
    role_password_clause [of "app_user\<lparr>role_password := Some []\<rparr>" plain_common]
    role_password_clause [of "app_user\<lparr>role_password := Some ''s3cret''\<rparr>" plain_common]
    role_password_clause [of "app_user\<lparr>role_password := Some ''s3cret'',
      role_membership := Some [''staff'', ''ops'']\<rparr>" plain_common]
  by (simp add: app_user_def plain_common_def)

end
